theory Spec2Isabelle
  imports Main "HOL-Library.Sublist" "HOL-Library.AList"
begin

section \<open>STIX objects\<close>

text \<open>
  A STIX object as \<^verbatim>\<open>MitreAttackData\<close> reads it: a dictionary-like record.  Only the
  properties that the modelled methods touch are kept.  The two flags \<^verbatim>\<open>revoked\<close> and
  \<^verbatim>\<open>x_mitre_deprecated\<close> are optional (\<open>None\<close>: the key is absent), because
  \<^verbatim>\<open>remove_revoked_deprecated\<close> reads them with \<^verbatim>\<open>.get(key, False)\<close>.  The three
  relationship properties are required by STIX on every object of type
  \<^verbatim>\<open>relationship\<close>; on other objects they are never read, every read being guarded
  by a filter on the type.
\<close>

record stix_object =
  stix_id :: string
  stix_type :: string
  name :: "string option"
  aliases :: "string list"
  x_mitre_aliases :: "string list"
  external_ids :: "string list"
  revoked :: "bool option"
  x_mitre_deprecated :: "bool option"
  relationship_type :: string
  source_ref :: string
  target_ref :: string

subsection \<open>Python primitives\<close>

datatype py_error = ValueError | IndexError

text \<open>
  A call either returns a value (\<open>Inr\<close>) or raises (\<open>Inl\<close>); \<open>bind_result\<close> runs the
  rest of a body on the value of a call, and an exception of the call ends the body.
\<close>

definition bind_result :: "py_error + 'a \<Rightarrow> ('a \<Rightarrow> py_error + 'b) \<Rightarrow> py_error + 'b" where
  "bind_result r f = (case r of Inl e \<Rightarrow> Inl e | Inr x \<Rightarrow> f x)"

text \<open>\<^verbatim>\<open>a in b\<close> on two strings: \<open>a\<close> occurs in \<open>b\<close> as a contiguous substring.\<close>

fun str_in :: "string \<Rightarrow> string \<Rightarrow> bool" where
  "str_in s [] = (s = [])"
| "str_in s (c # cs) = (prefix s (c # cs) \<or> str_in s cs)"

text \<open>\<^verbatim>\<open>xs[0]\<close>: the first element, or \<^verbatim>\<open>IndexError\<close> on the empty list.\<close>

definition first_of :: "'a list \<Rightarrow> py_error + 'a" where
  "first_of xs = (case xs of [] \<Rightarrow> Inl IndexError | x # _ \<Rightarrow> Inr x)"

text \<open>
  A Python dictionary keeps its keys in insertion order: an association list with
  distinct keys.  \<^verbatim>\<open>d[k] = v\<close> is \<^const>\<open>AList.update\<close> (in place when the key is
  there, at the end otherwise), \<^verbatim>\<open>k in d\<close> and \<^verbatim>\<open>d[k]\<close> read \<^const>\<open>map_of\<close>, and
  \<^verbatim>\<open>d[k].extend(xs)\<close> is \<open>dict_extend\<close>; the source calls it only under the guard
  \<^verbatim>\<open>k in d\<close>, so the \<^verbatim>\<open>KeyError\<close> of a missing key cannot happen.
\<close>

type_synonym ('k, 'v) dict = "('k \<times> 'v) list"

definition dict_has :: "'k \<Rightarrow> ('k, 'v) dict \<Rightarrow> bool" where
  "dict_has k d = (map_of d k \<noteq> None)"

definition dict_extend :: "'k \<Rightarrow> 'v list \<Rightarrow> ('k, 'v list) dict \<Rightarrow> ('k, 'v list) dict" where
  "dict_extend k xs d = AList.map_entry k (\<lambda>v. v @ xs) d"

text \<open>\<^verbatim>\<open>{**a, **b}\<close>: a new dictionary, the items of \<open>a\<close> overwritten by those of \<open>b\<close>.\<close>

definition dict_union :: "('k, 'v) dict \<Rightarrow> ('k, 'v) dict \<Rightarrow> ('k, 'v) dict" where
  "dict_union a b = foldl (\<lambda>d (k, v). AList.update k v d) a b"

text \<open>\<^verbatim>\<open>d[k] if k in d else []\<close>\<close>

definition get_or_empty :: "('k, 'v list) dict \<Rightarrow> 'k \<Rightarrow> 'v list" where
  "get_or_empty d k = (case map_of d k of Some v \<Rightarrow> v | None \<Rightarrow> [])"

section \<open>The memory store\<close>

text \<open>The store answers queries in a fixed order: it is the list of its objects.\<close>

type_synonym memory_store = "stix_object list"

datatype filter_value = Str string | Bool bool | Strs "string list"

datatype stix_filter = Filter string string filter_value

text \<open>
  Modelled from the spec: the entity store (\<^verbatim>\<open>stix2.MemoryStore\<close> with its
  \<^verbatim>\<open>Filter\<close>) is an external collaborator; "types must be among the fixed recognized
  vocabulary the store accepts ... the query step fails and that failure propagates
  uncaught".  What the store refuses is a filter on the property \<^verbatim>\<open>type\<close> whose value
  holds an underscore: building such a filter raises \<^verbatim>\<open>ValueError\<close>.  Every other
  filter that the modelled methods build is accepted.
\<close>

fun filter_ok :: "stix_filter \<Rightarrow> bool" where
  "filter_ok (Filter prop opr v) =
     (if prop = ''type'' then (case v of Str s \<Rightarrow> CHR ''_'' \<notin> set s | _ \<Rightarrow> True)
      else True)"

text \<open>
  Modelled from the spec: the store is "queryable by equality/containment/inequality
  predicates on fields, supporting compound (AND) filters".  \<open>check_filter\<close> gives the
  meaning of the filters that the modelled methods build: an equality holds when the
  property is present and equal; \<^verbatim>\<open>in\<close> when the property is one of the listed
  values; \<^verbatim>\<open>contains\<close>, on a list-valued property, when the value occurs in some
  element of the list (Python's \<^verbatim>\<open>in\<close> on each element, a substring test on
  strings); and \<^verbatim>\<open>external_references.external_id\<close> when some external reference
  carries the id.  A filter on a property the object lacks rejects the object.
\<close>

fun check_filter :: "stix_filter \<Rightarrow> stix_object \<Rightarrow> bool" where
  "check_filter (Filter prop opr v) obj =
     (if prop = ''type'' \<and> opr = ''='' then v = Str (stix_type obj)
      else if prop = ''id'' \<and> opr = ''in'' then
        (case v of Strs ids \<Rightarrow> stix_id obj \<in> set ids | _ \<Rightarrow> False)
      else if prop = ''name'' \<and> opr = ''='' then
        (case name obj of None \<Rightarrow> False | Some n \<Rightarrow> v = Str n)
      else if prop = ''relationship_type'' \<and> opr = ''='' then v = Str (relationship_type obj)
      else if prop = ''source_ref'' \<and> opr = ''='' then v = Str (source_ref obj)
      else if prop = ''revoked'' \<and> opr = ''='' then
        (case revoked obj of None \<Rightarrow> False | Some b \<Rightarrow> v = Bool b)
      else if prop = ''aliases'' \<and> opr = ''contains'' then
        (case v of Str a \<Rightarrow> list_ex (str_in a) (aliases obj) | _ \<Rightarrow> False)
      else if prop = ''x_mitre_aliases'' \<and> opr = ''contains'' then
        (case v of Str a \<Rightarrow> list_ex (str_in a) (x_mitre_aliases obj) | _ \<Rightarrow> False)
      else if prop = ''external_references.external_id'' \<and> opr = ''='' then
        (case v of Str a \<Rightarrow> a \<in> set (external_ids obj) | _ \<Rightarrow> False)
      else False)"

text \<open>The objects that pass every filter of a list, in store order.\<close>

definition matching :: "stix_filter list \<Rightarrow> memory_store \<Rightarrow> stix_object list" where
  "matching filters src = filter (\<lambda>obj. list_all (\<lambda>f. check_filter f obj) filters) src"

text \<open>
  Modelled from the spec: \<^verbatim>\<open>src.query([Filter(...), ...])\<close> builds the filters, which
  raises \<^verbatim>\<open>ValueError\<close> on a filter the store refuses, and then returns, in store
  order, the objects that pass every filter; the result is a list, empty when nothing
  matches.
\<close>

definition query :: "stix_filter list \<Rightarrow> memory_store \<Rightarrow> py_error + stix_object list" where
  "query filters src =
     (if list_all filter_ok filters then Inr (matching filters src) else Inl ValueError)"

text \<open>
  Modelled from the spec: \<^verbatim>\<open>src.relationships(stix_id, relationship_type,
  source_only=True)\<close> is the query for the relationship objects of that type whose
  \<^verbatim>\<open>source_ref\<close> is the given identifier.
\<close>

definition relationships ::
  "memory_store \<Rightarrow> string \<Rightarrow> string \<Rightarrow> py_error + stix_object list" where
  "relationships src sid rtype =
     query [Filter ''type'' ''='' (Str ''relationship''),
            Filter ''relationship_type'' ''='' (Str rtype),
            Filter ''source_ref'' ''='' (Str sid)] src"

text \<open>
  Modelled from the spec: the object materializer (\<^verbatim>\<open>StixObjectFactory\<close>) "converts a
  raw record plus its declared type into one of a fixed set of typed view variants"; the
  view carries the fields of the record, so the model returns the record.
\<close>

definition StixObjectFactory :: "stix_object \<Rightarrow> stix_object" where
  "StixObjectFactory obj = obj"

section \<open>STIX Objects Section\<close>

definition stix_types :: "string list" where
  "stix_types =
     [''attack-pattern'', ''malware'', ''tool'', ''intrusion-set'', ''campaign'',
      ''course-of-action'', ''x-mitre-matrix'', ''x-mitre-tactic'',
      ''x-mitre-data-source'', ''x-mitre-data-component'']"

text \<open>\<^verbatim>\<open>x.get(key, False)\<close> on an optional flag.\<close>

definition get_flag :: "bool option \<Rightarrow> bool" where
  "get_flag v = (case v of None \<Rightarrow> False | Some b \<Rightarrow> b)"

definition remove_revoked_deprecated :: "stix_object list \<Rightarrow> stix_object list" where
  "remove_revoked_deprecated stix_objects =
     filter (\<lambda>x. get_flag (x_mitre_deprecated x) = False \<and> get_flag (revoked x) = False)
       stix_objects"

section \<open>Get STIX Object by Value\<close>

definition get_object_by_attack_id ::
  "memory_store \<Rightarrow> string \<Rightarrow> string \<Rightarrow> py_error + stix_object" where
  "get_object_by_attack_id src attack_id object_type =
     (if object_type \<notin> set stix_types then Inl ValueError
      else map_sum id StixObjectFactory
        (bind_result
           (query [Filter ''external_references.external_id'' ''='' (Str attack_id),
                   Filter ''type'' ''='' (Str object_type)] src)
           first_of))"

definition get_object_by_name ::
  "memory_store \<Rightarrow> string \<Rightarrow> string \<Rightarrow> py_error + stix_object" where
  "get_object_by_name src nm object_type =
     (if object_type \<notin> set stix_types then Inl ValueError
      else map_sum id StixObjectFactory
        (bind_result
           (query [Filter ''type'' ''='' (Str object_type),
                   Filter ''name'' ''='' (Str nm)] src)
           first_of))"

definition get_group_by_alias :: "memory_store \<Rightarrow> string \<Rightarrow> py_error + stix_object" where
  "get_group_by_alias src alias =
     bind_result
       (query [Filter ''type'' ''='' (Str ''intrusion-set''),
               Filter ''aliases'' ''contains'' (Str alias)] src)
       first_of"

definition get_campaign_by_alias :: "memory_store \<Rightarrow> string \<Rightarrow> py_error + stix_object" where
  "get_campaign_by_alias src alias =
     bind_result
       (query [Filter ''type'' ''='' (Str ''campaign''),
               Filter ''aliases'' ''contains'' (Str alias)] src)
       first_of"

definition get_software_by_alias :: "memory_store \<Rightarrow> string \<Rightarrow> py_error + stix_object" where
  "get_software_by_alias src alias =
     (let malware_filter = [Filter ''type'' ''='' (Str ''malware''),
                            Filter ''x_mitre_aliases'' ''contains'' (Str alias)];
          tool_filter = [Filter ''type'' ''='' (Str ''tool''),
                         Filter ''x_mitre_aliases'' ''contains'' (Str alias)]
      in bind_result (query malware_filter src) (\<lambda>malware.
         bind_result (query tool_filter src) (\<lambda>tools.
         first_of (concat [malware, tools]))))"

section \<open>Relationship Section\<close>

text \<open>
  The two dictionaries of \<^verbatim>\<open>get_related\<close>: \<^verbatim>\<open>{'relationship': r, 'id': i}\<close> while
  the edges are grouped, \<^verbatim>\<open>{'object': o, 'relationship': r}\<close> in the output.
\<close>

record related =
  related_relationship :: stix_object
  related_id :: string

record rel_entry =
  object :: stix_object
  relationship :: stix_object

type_synonym rel_mapping = "(string, rel_entry list) dict"

text \<open>The body of the first loop of \<^verbatim>\<open>get_related\<close>, for one relationship.\<close>

definition add_related ::
  "string \<Rightarrow> string \<Rightarrow> bool \<Rightarrow> (string, related list) dict \<Rightarrow> stix_object
     \<Rightarrow> (string, related list) dict" where
  "add_related source_type target_type reverse id_to_related r =
     (if str_in source_type (source_ref r) \<and> str_in target_type (target_ref r) then
        (if (dict_has (source_ref r) id_to_related \<and> \<not> reverse)
            \<or> (dict_has (target_ref r) id_to_related \<and> reverse) then
           (if \<not> reverse then
              dict_extend (source_ref r)
                [\<lparr>related_relationship = r, related_id = target_ref r\<rparr>] id_to_related
            else
              dict_extend (target_ref r)
                [\<lparr>related_relationship = r, related_id = source_ref r\<rparr>] id_to_related)
         else
           (if \<not> reverse then
              AList.update (source_ref r)
                [\<lparr>related_relationship = r, related_id = target_ref r\<rparr>] id_to_related
            else
              AList.update (target_ref r)
                [\<lparr>related_relationship = r, related_id = source_ref r\<rparr>] id_to_related))
      else id_to_related)"

text \<open>The inner loop of the output: the pairs of one key that resolve in \<open>id_to_target\<close>.\<close>

definition add_value ::
  "(string, stix_object) dict \<Rightarrow> rel_entry list \<Rightarrow> related \<Rightarrow> rel_entry list" where
  "add_value id_to_target val rl =
     (case map_of id_to_target (related_id rl) of
        None \<Rightarrow> val
      | Some t \<Rightarrow> val @ [\<lparr>object = StixObjectFactory t,
                          relationship = related_relationship rl\<rparr>])"

definition get_related ::
  "memory_store \<Rightarrow> string \<Rightarrow> string \<Rightarrow> string \<Rightarrow> bool \<Rightarrow> py_error + rel_mapping" where
  "get_related src source_type rel_type target_type reverse =
     bind_result
       (query [Filter ''type'' ''='' (Str ''relationship''),
               Filter ''relationship_type'' ''='' (Str rel_type),
               Filter ''revoked'' ''='' (Bool False)] src)
       (\<lambda>relationships0.
     (let relationships1 = remove_revoked_deprecated relationships0;
          id_to_related = foldl (add_related source_type target_type reverse) [] relationships1
      in bind_result
           (if \<not> reverse then
              query [Filter ''type'' ''='' (Str target_type),
                     Filter ''revoked'' ''='' (Bool False)] src
            else
              query [Filter ''type'' ''='' (Str source_type),
                     Filter ''revoked'' ''='' (Bool False)] src)
           (\<lambda>targets.
     (let id_to_target = foldl (\<lambda>d target. AList.update (stix_id target) target d) [] targets
      in Inr (foldl (\<lambda>output (sid, rels).
                       AList.update sid (foldl (add_value id_to_target) [] rels) output)
                [] id_to_related)))))"

definition merge :: "rel_mapping \<Rightarrow> rel_mapping \<Rightarrow> rel_mapping" where
  "merge map_a map_b =
     foldl (\<lambda>a (i, v). if dict_has i a then dict_extend i v a else AList.update i v a)
       map_a map_b"

section \<open>Software/Group Relationships\<close>

text \<open>
  The lists that \<^verbatim>\<open>merge\<close> shares between its two arguments are never read again
  through the second argument, and every \<^verbatim>\<open>get_related\<close> call builds fresh lists,
  so the in-place \<^verbatim>\<open>extend\<close> of the source is the functional update written here.
\<close>

definition get_software_used_by_groups :: "memory_store \<Rightarrow> py_error + rel_mapping" where
  "get_software_used_by_groups src =
     bind_result (get_related src ''intrusion-set'' ''uses'' ''tool'' False)
       (\<lambda>tools_used_by_group.
     bind_result (get_related src ''intrusion-set'' ''uses'' ''malware'' False)
       (\<lambda>malware_used_by_group.
     (let software_used_by_group = merge tools_used_by_group malware_used_by_group
      in
     bind_result (get_related src ''campaign'' ''uses'' ''tool'' False)
       (\<lambda>tools_used_by_campaign.
     bind_result (get_related src ''campaign'' ''uses'' ''malware'' False)
       (\<lambda>malware_used_by_campaign.
     (let software_used_by_campaign = merge tools_used_by_campaign malware_used_by_campaign
      in
     bind_result (get_related src ''campaign'' ''attributed-to'' ''intrusion-set'' True)
       (\<lambda>campaigns.
     Inr (foldl (\<lambda>software_used_by_group (group_id, attributed).
                  (let software_used_by_campaigns =
                         foldl (\<lambda>acc campaign.
                                  (case map_of software_used_by_campaign
                                          (stix_id (object campaign)) of
                                     Some sw \<Rightarrow> acc @ sw
                                   | None \<Rightarrow> acc))
                           [] attributed
                   in if dict_has group_id software_used_by_group
                      then dict_extend group_id software_used_by_campaigns software_used_by_group
                      else AList.update group_id software_used_by_campaigns
                             software_used_by_group))
           software_used_by_group campaigns))))))))"

definition get_software_used_by_group_with_id ::
  "memory_store \<Rightarrow> string \<Rightarrow> py_error + rel_entry list" where
  "get_software_used_by_group_with_id src sid =
     bind_result (get_software_used_by_groups src)
       (\<lambda>software_used_by_groups. Inr (get_or_empty software_used_by_groups sid))"

section \<open>Technique/Software Relationships\<close>

definition get_techniques_used_by_software :: "memory_store \<Rightarrow> py_error + rel_mapping" where
  "get_techniques_used_by_software src =
     bind_result (get_related src ''tool'' ''uses'' ''attack-pattern'' False)
       (\<lambda>techniques_by_tool.
     bind_result (get_related src ''malware'' ''uses'' ''attack-pattern'' False)
       (\<lambda>techniques_by_malware.
     Inr (dict_union techniques_by_tool techniques_by_malware)))"

definition get_software_using_techniques :: "memory_store \<Rightarrow> py_error + rel_mapping" where
  "get_software_using_techniques src =
     bind_result (get_related src ''tool'' ''uses'' ''attack-pattern'' True)
       (\<lambda>tools_by_technique_id.
     bind_result (get_related src ''malware'' ''uses'' ''attack-pattern'' True)
       (\<lambda>malware_by_technique_id.
     Inr (dict_union tools_by_technique_id malware_by_technique_id)))"

definition get_software_using_technique_with_id ::
  "memory_store \<Rightarrow> string \<Rightarrow> py_error + rel_entry list" where
  "get_software_using_technique_with_id src sid =
     bind_result (get_software_using_techniques src)
       (\<lambda>software_using_techniques. Inr (get_or_empty software_using_techniques sid))"

section \<open>Technique/Mitigation Relationships\<close>

definition get_techniques_mitigated_by_mitigations :: "memory_store \<Rightarrow> py_error + rel_mapping" where
  "get_techniques_mitigated_by_mitigations src =
     get_related src ''course-of-action'' ''mitigates'' ''attack-pattern'' False"

definition get_techniques_mitigated_by_mitigation_with_id ::
  "memory_store \<Rightarrow> string \<Rightarrow> py_error + rel_entry list" where
  "get_techniques_mitigated_by_mitigation_with_id src sid =
     bind_result (get_techniques_mitigated_by_mitigations src)
       (\<lambda>techniques_mitigated_by_mitigations.
          Inr (get_or_empty techniques_mitigated_by_mitigations sid))"

definition get_mitigations_mitigating_techniques :: "memory_store \<Rightarrow> py_error + rel_mapping" where
  "get_mitigations_mitigating_techniques src =
     get_related src ''course-of-action'' ''mitigates'' ''attack-pattern'' True"

text \<open>
  The body of \<^verbatim>\<open>get_mitigations_mitigating_technique_with_id\<close> is its docstring only:
  the call returns Python's \<^verbatim>\<open>None\<close>, here \<open>None\<close>, for every argument.
\<close>

definition get_mitigations_mitigating_technique_with_id ::
  "memory_store \<Rightarrow> string \<Rightarrow> rel_entry list option" where
  "get_mitigations_mitigating_technique_with_id src sid = None"

section \<open>Revoking objects\<close>

text \<open>
  The store's query yields a list, so the test \<^verbatim>\<open>revoked_by is not None\<close> always
  holds and the first element is taken.
\<close>

definition get_revoked_by :: "memory_store \<Rightarrow> string \<Rightarrow> py_error + stix_object" where
  "get_revoked_by src sid =
     bind_result (relationships src sid ''revoked-by'') (\<lambda>relations.
     bind_result
       (query [Filter ''id'' ''in'' (Strs (map target_ref relations)),
               Filter ''revoked'' ''='' (Bool False)] src)
       (\<lambda>revoked_by. first_of revoked_by))"

section \<open>Notions used to state the properties\<close>

text \<open>The edges that the first loop of \<^verbatim>\<open>get_related\<close> groups, in store order.\<close>

definition typed_edge :: "string \<Rightarrow> string \<Rightarrow> stix_object \<Rightarrow> bool" where
  "typed_edge S T r = (str_in S (source_ref r) \<and> str_in T (target_ref r))"

definition retained_edges ::
  "memory_store \<Rightarrow> string \<Rightarrow> string \<Rightarrow> string \<Rightarrow> stix_object list" where
  "retained_edges src S R T =
     filter (typed_edge S T)
       (remove_revoked_deprecated
         (matching [Filter ''type'' ''='' (Str ''relationship''),
                    Filter ''relationship_type'' ''='' (Str R),
                    Filter ''revoked'' ''='' (Bool False)] src))"

text \<open>The key of an edge in the mapping, and the identifier it is related to.\<close>

definition anchor_of :: "bool \<Rightarrow> stix_object \<Rightarrow> string" where
  "anchor_of reverse r = (if reverse then target_ref r else source_ref r)"

definition related_of :: "bool \<Rightarrow> stix_object \<Rightarrow> string" where
  "related_of reverse r = (if reverse then source_ref r else target_ref r)"

definition mk_related :: "bool \<Rightarrow> stix_object \<Rightarrow> related" where
  "mk_related reverse r = \<lparr>related_relationship = r, related_id = related_of reverse r\<rparr>"

text \<open>The objects that \<^verbatim>\<open>get_related\<close> fetches as targets, and their index by id.\<close>

definition live_entities :: "memory_store \<Rightarrow> string \<Rightarrow> stix_object list" where
  "live_entities src ty =
     matching [Filter ''type'' ''='' (Str ty), Filter ''revoked'' ''='' (Bool False)] src"

definition target_index ::
  "memory_store \<Rightarrow> string \<Rightarrow> string \<Rightarrow> bool \<Rightarrow> (string, stix_object) dict" where
  "target_index src S T reverse =
     foldl (\<lambda>d target. AList.update (stix_id target) target d) []
       (live_entities src (if reverse then S else T))"

definition resolve :: "(string, stix_object) dict \<Rightarrow> related \<Rightarrow> rel_entry option" where
  "resolve m rl =
     map_option
       (\<lambda>t. \<lparr>object = StixObjectFactory t, relationship = related_relationship rl\<rparr>)
       (map_of m (related_id rl))"

text \<open>
  The mapping that \<^verbatim>\<open>get_related\<close> returns when the store accepts its filters: the
  retained edges grouped by anchor, each resolved against the index of the related
  entities.
\<close>

definition related_mapping ::
  "memory_store \<Rightarrow> string \<Rightarrow> string \<Rightarrow> string \<Rightarrow> bool \<Rightarrow> rel_mapping" where
  "related_mapping src S R T reverse =
     map (\<lambda>(sid, rels). (sid, List.map_filter (resolve (target_index src S T reverse)) rels))
       (foldl (add_related S T reverse) []
         (remove_revoked_deprecated
           (matching [Filter ''type'' ''='' (Str ''relationship''),
                      Filter ''relationship_type'' ''='' (Str R),
                      Filter ''revoked'' ''='' (Bool False)] src)))"

text \<open>Entity \<open>y\<close> appears in the value list of key \<open>x\<close>.\<close>

definition related_in :: "rel_mapping \<Rightarrow> string \<Rightarrow> string \<Rightarrow> bool" where
  "related_in m x y =
     (case map_of m x of
        None \<Rightarrow> False
      | Some v \<Rightarrow> y \<in> set (map (\<lambda>p. stix_id (object p)) v))"

text \<open>
  The revocation filter in the words of the spec: an element is kept when neither flag
  is present with value true.
\<close>

definition kept_by_spec :: "stix_object \<Rightarrow> bool" where
  "kept_by_spec x = (x_mitre_deprecated x \<noteq> Some True \<and> revoked x \<noteq> Some True)"

text \<open>
  The non-revoked objects that revoke \<open>sid\<close>: the targets of the stored
  \<^verbatim>\<open>revoked-by\<close> relationships whose source is \<open>sid\<close>, in store order.
\<close>

definition revokers :: "memory_store \<Rightarrow> string \<Rightarrow> stix_object list" where
  "revokers src sid =
     filter (\<lambda>obj. revoked obj = Some False \<and>
                  stix_id obj \<in> set (map target_ref
                    (filter (\<lambda>r. stix_type r = ''relationship'' \<and>
                       relationship_type r = ''revoked-by'' \<and> source_ref r = sid) src)))
       src"

text \<open>The characters of the UUID part of a STIX identifier \<^verbatim>\<open><type>--<uuid>\<close>.\<close>

definition uuid_chars :: "string \<Rightarrow> bool" where
  "uuid_chars u = list_all (\<lambda>c. c \<in> set ''0123456789abcdefABCDEF-'') u"

subsection \<open>Example objects\<close>

definition entity :: "string \<Rightarrow> string \<Rightarrow> stix_object" where
  "entity ty sid =
     \<lparr>stix_id = sid, stix_type = ty, name = None, aliases = [], x_mitre_aliases = [],
      external_ids = [], revoked = Some False, x_mitre_deprecated = None,
      relationship_type = [], source_ref = [], target_ref = []\<rparr>"

definition edge :: "string \<Rightarrow> string \<Rightarrow> string \<Rightarrow> string \<Rightarrow> stix_object" where
  "edge sid rtype src_ref tgt_ref =
     \<lparr>stix_id = sid, stix_type = ''relationship'', name = None, aliases = [],
      x_mitre_aliases = [], external_ids = [], revoked = Some False,
      x_mitre_deprecated = None, relationship_type = rtype, source_ref = src_ref,
      target_ref = tgt_ref\<rparr>"

definition ex_group :: stix_object where
  "ex_group = entity ''intrusion-set'' ''intrusion-set--1''"

definition ex_tool :: stix_object where
  "ex_tool = entity ''tool'' ''tool--2''"

definition ex_uses :: stix_object where
  "ex_uses = edge ''relationship--3'' ''uses'' ''intrusion-set--1'' ''tool--2''"

definition ex_technique :: stix_object where
  "ex_technique = entity ''attack-pattern'' ''attack-pattern--4''"

definition ex_mitigation :: stix_object where
  "ex_mitigation = entity ''course-of-action'' ''course-of-action--5''"

definition ex_mitigates :: stix_object where
  "ex_mitigates = edge ''relationship--6'' ''mitigates'' ''course-of-action--5'' ''attack-pattern--4''"

definition ex_malware :: stix_object where
  "ex_malware = entity ''malware'' ''malware--7''"

definition ex_tool_uses :: stix_object where
  "ex_tool_uses = edge ''relationship--8'' ''uses'' ''tool--2'' ''attack-pattern--4''"

definition ex_malware_uses :: stix_object where
  "ex_malware_uses = edge ''relationship--9'' ''uses'' ''malware--7'' ''attack-pattern--4''"

section \<open>The store's filters\<close>

lemma check_type [simp]:
  "check_filter (Filter ''type'' ''='' (Str t)) obj = (stix_type obj = t)"
  by auto

lemma check_relationship_type [simp]:
  "check_filter (Filter ''relationship_type'' ''='' (Str t)) obj = (relationship_type obj = t)"
  by auto

lemma check_revoked [simp]:
  "check_filter (Filter ''revoked'' ''='' (Bool b)) obj = (revoked obj = Some b)"
  by (auto split: option.split)

lemma check_source_ref [simp]:
  "check_filter (Filter ''source_ref'' ''='' (Str t)) obj = (source_ref obj = t)"
  by auto

lemma check_name [simp]:
  "check_filter (Filter ''name'' ''='' (Str t)) obj = (name obj = Some t)"
  by (auto split: option.split)

lemma check_id_in [simp]:
  "check_filter (Filter ''id'' ''in'' (Strs ids)) obj = (stix_id obj \<in> set ids)"
  by simp

lemma check_aliases [simp]:
  "check_filter (Filter ''aliases'' ''contains'' (Str a)) obj
     = list_ex (str_in a) (aliases obj)"
  by simp

lemma check_x_mitre_aliases [simp]:
  "check_filter (Filter ''x_mitre_aliases'' ''contains'' (Str a)) obj
     = list_ex (str_in a) (x_mitre_aliases obj)"
  by simp

lemma check_external_id [simp]:
  "check_filter (Filter ''external_references.external_id'' ''='' (Str a)) obj
     = (a \<in> set (external_ids obj))"
  by simp

declare check_filter.simps [simp del]

lemma filter_ok_type [simp]:
  "filter_ok (Filter ''type'' opr (Str t)) = (CHR ''_'' \<notin> set t)"
  by simp

lemma query_accepted:
  "list_all filter_ok fs \<Longrightarrow> query fs src = Inr (matching fs src)"
  by (simp add: query_def)

lemma bind_result_Inr [simp]: "bind_result (Inr x) f = f x"
  by (simp add: bind_result_def)

lemma bind_result_Inl [simp]: "bind_result (Inl e) f = Inl e"
  by (simp add: bind_result_def)

section \<open>The revocation filter\<close>

text \<open>
  C7.  \<^verbatim>\<open>remove_revoked_deprecated\<close> returns exactly the elements of its argument for
  which neither \<^verbatim>\<open>x_mitre_deprecated\<close> nor \<^verbatim>\<open>revoked\<close> is present with value true (an
  absent flag counts as false), in their order: the result is the filter of the input by
  that condition and a subsequence of the input.  The function is pure: the input list
  is its argument and nothing else is read or written.
\<close>

theorem remove_revoked_deprecated_subsequence:
  "remove_revoked_deprecated xs = filter kept_by_spec xs
   \<and> subseq (remove_revoked_deprecated xs) xs
   \<and> set (remove_revoked_deprecated xs) = {x \<in> set xs. kept_by_spec x}"
proof -
  have "\<And>x. (get_flag (x_mitre_deprecated x) = False \<and> get_flag (revoked x) = False)
           = kept_by_spec x"
    by (auto simp: get_flag_def kept_by_spec_def split: option.splits)
  then have eq: "remove_revoked_deprecated xs = filter kept_by_spec xs"
    by (simp add: remove_revoked_deprecated_def)
  show ?thesis
    unfolding eq by simp
qed

theorem remove_revoked_deprecated_subsequence_witness:
  "remove_revoked_deprecated
     [entity ''tool'' ''tool--1'',
      (entity ''tool'' ''tool--2'')\<lparr>revoked := Some True\<rparr>,
      (entity ''tool'' ''tool--3'')\<lparr>x_mitre_deprecated := Some True\<rparr>,
      (entity ''tool'' ''tool--4'')\<lparr>revoked := None, x_mitre_deprecated := Some False\<rparr>]
   = [entity ''tool'' ''tool--1'',
      (entity ''tool'' ''tool--4'')\<lparr>revoked := None, x_mitre_deprecated := Some False\<rparr>]"
  using remove_revoked_deprecated_subsequence
    [of "[entity ''tool'' ''tool--1'',
      (entity ''tool'' ''tool--2'')\<lparr>revoked := Some True\<rparr>,
      (entity ''tool'' ''tool--3'')\<lparr>x_mitre_deprecated := Some True\<rparr>,
      (entity ''tool'' ''tool--4'')\<lparr>revoked := None, x_mitre_deprecated := Some False\<rparr>]"]
  by (simp add: kept_by_spec_def entity_def)

section \<open>The relationship resolver\<close>

lemmas eval_defs = get_related_def Let_def query_def matching_def remove_revoked_deprecated_def get_flag_def
  add_related_def add_value_def dict_has_def dict_extend_def StixObjectFactory_def
  ex_group_def ex_tool_def ex_uses_def entity_def edge_def

lemmas eval_more = ex_technique_def ex_mitigation_def ex_mitigates_def ex_malware_def
  ex_tool_uses_def ex_malware_uses_def dict_union_def get_or_empty_def first_of_def

lemma str_in_Nil [simp]: "str_in [] s"
  by (cases s) simp_all

lemma add_related_lookup:
  "map_of (add_related S T rv d r) k =
     (if typed_edge S T r \<and> anchor_of rv r = k
      then Some ((case map_of d k of None \<Rightarrow> [] | Some v \<Rightarrow> v) @ [mk_related rv r])
      else map_of d k)"
  by (auto simp: add_related_def typed_edge_def anchor_of_def related_of_def mk_related_def
      dict_has_def dict_extend_def AList.map_of_map_entry AList.update_conv')

lemma add_related_distinct:
  "distinct (map fst d) \<Longrightarrow> distinct (map fst (add_related S T rv d r))"
  by (simp add: add_related_def dict_extend_def AList.distinct_map_entry AList.distinct_update)

lemma foldl_add_related_distinct:
  "distinct (map fst d) \<Longrightarrow> distinct (map fst (foldl (add_related S T rv) d rs))"
  by (induction rs arbitrary: d) (simp_all add: add_related_distinct)

lemma foldl_add_related_lookup:
  "map_of (foldl (add_related S T rv) d rs) k =
     (case map_of d k of
        None \<Rightarrow> (if filter (\<lambda>r. typed_edge S T r \<and> anchor_of rv r = k) rs = [] then None
                 else Some (map (mk_related rv) (filter (\<lambda>r. typed_edge S T r \<and> anchor_of rv r = k) rs)))
      | Some v \<Rightarrow> Some (v @ map (mk_related rv) (filter (\<lambda>r. typed_edge S T r \<and> anchor_of rv r = k) rs)))"
proof (induction rs arbitrary: d)
  case Nil
  show ?case by (simp split: option.split)
next
  case (Cons r rs)
  show ?case
    by (simp add: Cons.IH add_related_lookup split: option.split)
qed

lemma foldl_add_value:
  "foldl (add_value m) acc rels = acc @ List.map_filter (resolve m) rels"
  by (induction rels arbitrary: acc)
     (simp_all add: add_value_def resolve_def split: option.split)

lemma foldl_output:
  "distinct (map fst out0 @ map fst d) \<Longrightarrow>
   foldl (\<lambda>output (sid, rels). AList.update sid (g rels) output) out0 d
     = out0 @ map (\<lambda>(sid, rels). (sid, g rels)) d"
proof (induction d arbitrary: out0)
  case Nil
  show ?case by simp
next
  case (Cons p d)
  obtain sid rels where p: "p = (sid, rels)" by (cases p)
  have notin: "sid \<notin> fst ` set out0" using Cons.prems p by auto
  have upd: "AList.update sid (g rels) out0 = out0 @ [(sid, g rels)]"
    using notin by (induction out0) auto
  have "distinct (map fst (out0 @ [(sid, g rels)]) @ map fst d)"
    using Cons.prems p by auto
  then show ?case
    using Cons.IH [of "out0 @ [(sid, g rels)]"] p upd by simp
qed

lemma id_to_target_Some:
  "map_of (foldl (\<lambda>d t. AList.update (stix_id t) t d) d0 ts) k = Some t \<Longrightarrow>
     (t \<in> set ts \<and> stix_id t = k) \<or> map_of d0 k = Some t"
proof (induction ts arbitrary: d0)
  case Nil
  then show ?case by simp
next
  case (Cons a ts)
  from Cons.prems have
    "map_of (foldl (\<lambda>d t. AList.update (stix_id t) t d) (AList.update (stix_id a) a d0) ts) k = Some t"
    by simp
  from Cons.IH [OF this] show ?case
    by (auto simp: AList.update_conv' split: if_splits)
qed

lemma id_to_target_dom:
  "k \<in> stix_id ` set ts \<or> map_of d0 k \<noteq> None \<Longrightarrow>
     map_of (foldl (\<lambda>d t. AList.update (stix_id t) t d) d0 ts) k \<noteq> None"
  by (induction ts arbitrary: d0) (auto simp: AList.update_conv' split: if_splits)

lemma in_live_entities:
  "t \<in> set (live_entities src ty) \<longleftrightarrow>
     t \<in> set src \<and> stix_type t = ty \<and> revoked t = Some False"
  by (auto simp: live_entities_def matching_def)

lemma in_retained_edges:
  "r \<in> set (retained_edges src S R T) \<longleftrightarrow>
     r \<in> set src \<and> stix_type r = ''relationship'' \<and> relationship_type r = R \<and>
     revoked r = Some False \<and> x_mitre_deprecated r \<noteq> Some True \<and> typed_edge S T r"
  by (auto simp: retained_edges_def matching_def remove_revoked_deprecated_def get_flag_def
      split: option.splits)

lemma target_index_Some:
  "map_of (target_index src S T rv) k = Some t \<longleftrightarrow>
     map_of (target_index src S T rv) k = Some t \<and> t \<in> set src \<and> stix_id t = k \<and>
     stix_type t = (if rv then S else T) \<and> revoked t = Some False"
  unfolding target_index_def
  using id_to_target_Some [of "[]" "live_entities src (if rv then S else T)" k t]
  by (auto simp: in_live_entities)

lemma target_index_dom:
  "(map_of (target_index src S T rv) k \<noteq> None) \<longleftrightarrow>
     k \<in> stix_id ` set (live_entities src (if rv then S else T))"
proof
  assume "map_of (target_index src S T rv) k \<noteq> None"
  then obtain t where t: "map_of (target_index src S T rv) k = Some t" by auto
  then have "t \<in> set (live_entities src (if rv then S else T)) \<and> stix_id t = k"
    unfolding target_index_def
    using id_to_target_Some [of "[]" "live_entities src (if rv then S else T)" k t] by simp
  then show "k \<in> stix_id ` set (live_entities src (if rv then S else T))" by auto
next
  assume "k \<in> stix_id ` set (live_entities src (if rv then S else T))"
  then show "map_of (target_index src S T rv) k \<noteq> None"
    unfolding target_index_def
    using id_to_target_dom [of k "live_entities src (if rv then S else T)" "[]"] by simp
qed

lemma filter_typed_anchor:
  "filter (\<lambda>r. typed_edge S T r \<and> anchor_of rv r = k) rs
     = filter (\<lambda>r. anchor_of rv r = k) (filter (typed_edge S T) rs)"
  by (induction rs) auto

lemma get_related_eq:
  "get_related src S R T rv =
     (if CHR ''_'' \<in> set (if rv then S else T) then Inl ValueError
      else Inr (related_mapping src S R T rv))"
proof -
  let ?rels = "remove_revoked_deprecated
           (matching [Filter ''type'' ''='' (Str ''relationship''),
                      Filter ''relationship_type'' ''='' (Str R),
                      Filter ''revoked'' ''='' (Bool False)] src)"
  have q1: "query [Filter ''type'' ''='' (Str ''relationship''),
                   Filter ''relationship_type'' ''='' (Str R),
                   Filter ''revoked'' ''='' (Bool False)] src
      = Inr (matching [Filter ''type'' ''='' (Str ''relationship''),
                       Filter ''relationship_type'' ''='' (Str R),
                       Filter ''revoked'' ''='' (Bool False)] src)"
    by (rule query_accepted) simp
  have q2: "(if \<not> rv then query [Filter ''type'' ''='' (Str T), Filter ''revoked'' ''='' (Bool False)] src
              else query [Filter ''type'' ''='' (Str S), Filter ''revoked'' ''='' (Bool False)] src)
      = (if CHR ''_'' \<in> set (if rv then S else T) then Inl ValueError
         else Inr (live_entities src (if rv then S else T)))"
    by (simp add: query_def live_entities_def)
  have d: "distinct (map fst [] @ map fst (foldl (add_related S T rv) [] ?rels))"
    using foldl_add_related_distinct [of "[]" S T rv ?rels] by simp
  have out: "foldl (\<lambda>output (sid, rels).
                 AList.update sid (foldl (add_value (target_index src S T rv)) [] rels) output)
               [] (foldl (add_related S T rv) [] ?rels)
             = related_mapping src S R T rv"
    using foldl_output [OF d, of "\<lambda>rels. foldl (add_value (target_index src S T rv)) [] rels"]
    by (simp add: related_mapping_def foldl_add_value)
  show ?thesis
    unfolding get_related_def q1 bind_result_Inr Let_def q2
    using out by (simp add: target_index_def)
qed

lemma get_related_Inr:
  "get_related src S R T rv = Inr m \<Longrightarrow> m = related_mapping src S R T rv"
  by (simp add: get_related_eq split: if_splits)

lemma map_filter_map: "List.map_filter f (map g xs) = List.map_filter (\<lambda>x. f (g x)) xs"
  by (induction xs) (simp_all split: option.split)

lemma related_mapping_lookup:
  "map_of (related_mapping src S R T rv) k =
     (if filter (\<lambda>r. anchor_of rv r = k) (retained_edges src S R T) = [] then None
      else Some (List.map_filter (\<lambda>r. resolve (target_index src S T rv) (mk_related rv r))
                  (filter (\<lambda>r. anchor_of rv r = k) (retained_edges src S R T))))"
proof -
  let ?rels = "remove_revoked_deprecated
           (matching [Filter ''type'' ''='' (Str ''relationship''),
                      Filter ''relationship_type'' ''='' (Str R),
                      Filter ''revoked'' ''='' (Bool False)] src)"
  let ?es = "filter (\<lambda>r. anchor_of rv r = k) (retained_edges src S R T)"
  have es: "filter (\<lambda>r. typed_edge S T r \<and> anchor_of rv r = k) ?rels = ?es"
    unfolding retained_edges_def by (rule filter_typed_anchor)
  have grp: "map_of (foldl (add_related S T rv) [] ?rels) k =
      (if ?es = [] then None else Some (map (mk_related rv) ?es))"
    unfolding foldl_add_related_lookup es by simp
  have "map_of (related_mapping src S R T rv) k =
      map_option (List.map_filter (resolve (target_index src S T rv)))
        (map_of (foldl (add_related S T rv) [] ?rels) k)"
    unfolding related_mapping_def map_of_map by simp
  then show ?thesis
    unfolding grp by (simp add: map_filter_map)
qed

text \<open>A pair of a value list comes from a retained edge whose related id resolves.\<close>

lemma related_mapping_entry:
  assumes "map_of (related_mapping src S R T rv) k = Some v"
  shows "p \<in> set v \<longleftrightarrow>
     (\<exists>r \<in> set (retained_edges src S R T). \<exists>t.
        anchor_of rv r = k \<and> map_of (target_index src S T rv) (related_of rv r) = Some t \<and>
        p = \<lparr>object = StixObjectFactory t, relationship = r\<rparr>)"
proof -
  let ?es = "filter (\<lambda>r. anchor_of rv r = k) (retained_edges src S R T)"
  have v: "v = List.map_filter (\<lambda>r. resolve (target_index src S T rv) (mk_related rv r)) ?es"
    using assms unfolding related_mapping_lookup by (simp split: if_splits)
  show ?thesis
    unfolding v
    by (auto simp: map_filter_def resolve_def mk_related_def image_iff)
qed

lemma related_in_related_mapping:
  "related_in (related_mapping src S R T rv) x y \<longleftrightarrow>
     (\<exists>r \<in> set (retained_edges src S R T).
        anchor_of rv r = x \<and> related_of rv r = y \<and>
        y \<in> stix_id ` set (live_entities src (if rv then S else T)))"
proof (cases "map_of (related_mapping src S R T rv) x")
  case None
  then have "filter (\<lambda>r. anchor_of rv r = x) (retained_edges src S R T) = []"
    unfolding related_mapping_lookup by (simp split: if_splits)
  then have "\<forall>r \<in> set (retained_edges src S R T). anchor_of rv r \<noteq> x"
    by (simp add: filter_empty_conv)
  with None show ?thesis
    by (auto simp: related_in_def)
next
  case (Some v)
  have "y \<in> set (map (\<lambda>p. stix_id (object p)) v) \<longleftrightarrow> (\<exists>p \<in> set v. stix_id (object p) = y)"
    by auto
  also have "\<dots> \<longleftrightarrow> (\<exists>r \<in> set (retained_edges src S R T). \<exists>t.
        anchor_of rv r = x \<and> map_of (target_index src S T rv) (related_of rv r) = Some t \<and>
        stix_id t = y)"
  proof
    assume "\<exists>p \<in> set v. stix_id (object p) = y"
    then obtain p where p: "p \<in> set v" "stix_id (object p) = y" by blast
    from p(1) obtain r t where "r \<in> set (retained_edges src S R T)" "anchor_of rv r = x"
      "map_of (target_index src S T rv) (related_of rv r) = Some t"
      "p = \<lparr>object = StixObjectFactory t, relationship = r\<rparr>"
      unfolding related_mapping_entry [OF Some] by blast
    with p(2) show "\<exists>r \<in> set (retained_edges src S R T). \<exists>t.
        anchor_of rv r = x \<and> map_of (target_index src S T rv) (related_of rv r) = Some t \<and>
        stix_id t = y"
      by (auto simp: StixObjectFactory_def)
  next
    assume "\<exists>r \<in> set (retained_edges src S R T). \<exists>t.
        anchor_of rv r = x \<and> map_of (target_index src S T rv) (related_of rv r) = Some t \<and>
        stix_id t = y"
    then obtain r t where rt: "r \<in> set (retained_edges src S R T)" "anchor_of rv r = x"
      "map_of (target_index src S T rv) (related_of rv r) = Some t" "stix_id t = y"
      by blast
    then have "\<lparr>object = StixObjectFactory t, relationship = r\<rparr> \<in> set v"
      unfolding related_mapping_entry [OF Some] by blast
    with rt(4) show "\<exists>p \<in> set v. stix_id (object p) = y"
      by (force simp: StixObjectFactory_def)
  qed
  also have "\<dots> \<longleftrightarrow> (\<exists>r \<in> set (retained_edges src S R T).
        anchor_of rv r = x \<and> related_of rv r = y \<and>
        y \<in> stix_id ` set (live_entities src (if rv then S else T)))"
  proof -
    have a: "\<And>r t. map_of (target_index src S T rv) (related_of rv r) = Some t \<Longrightarrow>
         stix_id t = related_of rv r \<and>
         related_of rv r \<in> stix_id ` set (live_entities src (if rv then S else T))"
      using target_index_Some target_index_dom by (metis option.distinct(1))
    have b: "\<And>r. related_of rv r \<in> stix_id ` set (live_entities src (if rv then S else T)) \<Longrightarrow>
         \<exists>t. map_of (target_index src S T rv) (related_of rv r) = Some t \<and> stix_id t = related_of rv r"
      using target_index_Some target_index_dom by (metis not_Some_eq)
    show ?thesis
    proof
      assume "\<exists>r \<in> set (retained_edges src S R T). \<exists>t.
        anchor_of rv r = x \<and> map_of (target_index src S T rv) (related_of rv r) = Some t \<and>
        stix_id t = y"
      then obtain r t where rt: "r \<in> set (retained_edges src S R T)" "anchor_of rv r = x"
        "map_of (target_index src S T rv) (related_of rv r) = Some t" "stix_id t = y"
        by blast
      from a [OF rt(3)] rt(4) have "related_of rv r = y"
        "y \<in> stix_id ` set (live_entities src (if rv then S else T))"
        by simp_all
      with rt(1,2) show "\<exists>r \<in> set (retained_edges src S R T).
        anchor_of rv r = x \<and> related_of rv r = y \<and>
        y \<in> stix_id ` set (live_entities src (if rv then S else T))"
        by blast
    next
      assume "\<exists>r \<in> set (retained_edges src S R T).
        anchor_of rv r = x \<and> related_of rv r = y \<and>
        y \<in> stix_id ` set (live_entities src (if rv then S else T))"
      then obtain r where r: "r \<in> set (retained_edges src S R T)" "anchor_of rv r = x"
        "related_of rv r = y"
        "related_of rv r \<in> stix_id ` set (live_entities src (if rv then S else T))"
        by blast
      from b [OF r(4)] obtain t where
        "map_of (target_index src S T rv) (related_of rv r) = Some t" "stix_id t = related_of rv r"
        by blast
      with r show "\<exists>r \<in> set (retained_edges src S R T). \<exists>t.
        anchor_of rv r = x \<and> map_of (target_index src S T rv) (related_of rv r) = Some t \<and>
        stix_id t = y"
        by auto
    qed
  qed
  finally show ?thesis
    using Some by (simp add: related_in_def)
qed

text \<open>
  C1 (as amended).  Every pair of every value list of a mapping returned by
  \<^verbatim>\<open>get_related\<close> holds an object of the store that is not revoked, has the related
  type (\<^verbatim>\<open>target_type\<close>, or \<^verbatim>\<open>source_type\<close> when reversed) and carries the related
  identifier of the pair's edge; the edge is a stored relationship that is neither
  revoked nor deprecated and whose anchor is the key.  So an edge whose related
  identifier resolves to a revoked or absent entity is in no value list, and dropping it
  raises nothing.  A deprecated entity that is not revoked is kept.
\<close>

theorem get_related_entries_not_revoked:
  assumes "get_related src S R T rv = Inr m"
    and "map_of m k = Some v" and "p \<in> set v"
  shows "object p \<in> set src \<and> revoked (object p) = Some False
    \<and> stix_type (object p) = (if rv then S else T)
    \<and> stix_id (object p) = related_of rv (relationship p)
    \<and> relationship p \<in> set src \<and> revoked (relationship p) = Some False
    \<and> x_mitre_deprecated (relationship p) \<noteq> Some True
    \<and> anchor_of rv (relationship p) = k"
proof -
  have v: "map_of (related_mapping src S R T rv) k = Some v"
    using assms(1,2) get_related_Inr by blast
  from assms(3) obtain r t where r: "r \<in> set (retained_edges src S R T)" "anchor_of rv r = k"
    and t: "map_of (target_index src S T rv) (related_of rv r) = Some t"
    and p: "p = \<lparr>object = StixObjectFactory t, relationship = r\<rparr>"
    using related_mapping_entry [OF v, of p] by blast
  from t have t': "t \<in> set src \<and> stix_id t = related_of rv r \<and>
     stix_type t = (if rv then S else T) \<and> revoked t = Some False"
    using target_index_Some by blast
  from r(1) have r': "r \<in> set src \<and> revoked r = Some False \<and> x_mitre_deprecated r \<noteq> Some True"
    unfolding in_retained_edges by simp
  show ?thesis
    using t' r' r(2) unfolding p by (simp add: StixObjectFactory_def)
qed

theorem get_related_entries_not_revoked_witness:
  "get_related [ex_group, ex_tool, ex_uses] ''intrusion-set'' ''uses'' ''tool'' False
     = Inr [(''intrusion-set--1'', [\<lparr>object = ex_tool, relationship = ex_uses\<rparr>])]
   \<and> ex_tool \<in> set [ex_group, ex_tool, ex_uses] \<and> revoked ex_tool = Some False
   \<and> stix_type ex_tool = ''tool''"
proof -
  have h: "get_related [ex_group, ex_tool, ex_uses] ''intrusion-set'' ''uses'' ''tool'' False
     = Inr [(''intrusion-set--1'', [\<lparr>object = ex_tool, relationship = ex_uses\<rparr>])]"
    by (simp add: eval_defs)
  have k: "map_of [(''intrusion-set--1'', [\<lparr>object = ex_tool, relationship = ex_uses\<rparr>])]
      ''intrusion-set--1'' = Some [\<lparr>object = ex_tool, relationship = ex_uses\<rparr>]"
    by simp
  have m: "\<lparr>object = ex_tool, relationship = ex_uses\<rparr>
      \<in> set [\<lparr>object = ex_tool, relationship = ex_uses\<rparr>]"
    by simp
  show ?thesis
    using h get_related_entries_not_revoked [OF h k m] by simp
qed

text \<open>
  C1 as stated fails: a related entity that is deprecated and not revoked stays in the
  mapping.
\<close>

theorem get_related_keeps_deprecated_entity:
  "get_related [ex_group, ex_tool\<lparr>x_mitre_deprecated := Some True\<rparr>, ex_uses]
      ''intrusion-set'' ''uses'' ''tool'' False
     = Inr [(''intrusion-set--1'',
         [\<lparr>object = ex_tool\<lparr>x_mitre_deprecated := Some True\<rparr>, relationship = ex_uses\<rparr>])]
   \<and> x_mitre_deprecated (ex_tool\<lparr>x_mitre_deprecated := Some True\<rparr>) = Some True"
  by (simp add: eval_defs)

lemma related_mapping_value_Nil_iff:
  assumes v: "map_of (related_mapping src S R T rv) k = Some v"
  shows "v = [] \<longleftrightarrow>
          (\<forall>r \<in> set (retained_edges src S R T). anchor_of rv r = k \<longrightarrow>
             related_of rv r \<notin> stix_id ` set (live_entities src (if rv then S else T)))"
proof -
  have "v \<noteq> [] \<longleftrightarrow> (\<exists>p. p \<in> set v)"
    by (cases v) auto
  also have "\<dots> \<longleftrightarrow> (\<exists>r \<in> set (retained_edges src S R T).
        anchor_of rv r = k \<and> map_of (target_index src S T rv) (related_of rv r) \<noteq> None)"
    using related_mapping_entry [OF v] by blast
  also have "\<dots> \<longleftrightarrow> (\<exists>r \<in> set (retained_edges src S R T).
        anchor_of rv r = k \<and>
        related_of rv r \<in> stix_id ` set (live_entities src (if rv then S else T)))"
    unfolding target_index_dom ..
  finally show ?thesis
    by blast
qed

lemma related_mapping_Nil_iff:
  "related_mapping src S R T rv = [] \<longleftrightarrow> retained_edges src S R T = []"
proof
  assume e: "related_mapping src S R T rv = []"
  show "retained_edges src S R T = []"
  proof (cases "retained_edges src S R T")
    case Nil
    then show ?thesis .
  next
    case (Cons r rs)
    have "map_of (related_mapping src S R T rv) (anchor_of rv r) \<noteq> None"
      unfolding related_mapping_lookup Cons by simp
    with e show ?thesis by simp
  qed
next
  assume e: "retained_edges src S R T = []"
  show "related_mapping src S R T rv = []"
  proof (cases "related_mapping src S R T rv")
    case Nil
    then show ?thesis .
  next
    case (Cons p ps)
    have "map_of (related_mapping src S R T rv) (fst p) = None"
      unfolding related_mapping_lookup e by simp
    with Cons show ?thesis by (cases p) simp
  qed
qed

text \<open>
  C2 (as amended).  A key is present in a mapping returned by \<^verbatim>\<open>get_related\<close> exactly
  when it is the anchor of a retained edge; its value list is empty exactly when the
  related identifier of none of these edges resolves to a stored, non-revoked entity of
  the related type.  Such a key is present with an empty list.
\<close>

theorem get_related_keys_are_anchors:
  assumes "get_related src S R T rv = Inr m"
  shows "(dict_has k m
      \<longleftrightarrow> (\<exists>r \<in> set (retained_edges src S R T). anchor_of rv r = k))
   \<and> (\<forall>v. map_of m k = Some v \<longrightarrow>
        (v = [] \<longleftrightarrow>
          (\<forall>r \<in> set (retained_edges src S R T). anchor_of rv r = k \<longrightarrow>
             related_of rv r \<notin> stix_id ` set (live_entities src (if rv then S else T)))))"
proof (intro conjI allI impI)
  have m: "m = related_mapping src S R T rv"
    using assms by (rule get_related_Inr)
  show "dict_has k m
      \<longleftrightarrow> (\<exists>r \<in> set (retained_edges src S R T). anchor_of rv r = k)"
    unfolding m dict_has_def related_mapping_lookup
    by (auto simp: filter_empty_conv)
next
  fix v assume "map_of m k = Some v"
  then have v: "map_of (related_mapping src S R T rv) k = Some v"
    using assms get_related_Inr by blast
  show "v = [] \<longleftrightarrow>
          (\<forall>r \<in> set (retained_edges src S R T). anchor_of rv r = k \<longrightarrow>
             related_of rv r \<notin> stix_id ` set (live_entities src (if rv then S else T)))"
    by (rule related_mapping_value_Nil_iff [OF v])
qed

theorem get_related_keys_are_anchors_witness:
  "get_related [ex_group, ex_tool, ex_uses] ''intrusion-set'' ''uses'' ''tool'' False
     = Inr [(''intrusion-set--1'', [\<lparr>object = ex_tool, relationship = ex_uses\<rparr>])]
   \<and> dict_has ''intrusion-set--1''
        [(''intrusion-set--1'', [\<lparr>object = ex_tool, relationship = ex_uses\<rparr>])]
   \<and> ex_uses \<in> set (retained_edges [ex_group, ex_tool, ex_uses] ''intrusion-set'' ''uses'' ''tool'')"
proof -
  have h: "get_related [ex_group, ex_tool, ex_uses] ''intrusion-set'' ''uses'' ''tool'' False
     = Inr [(''intrusion-set--1'', [\<lparr>object = ex_tool, relationship = ex_uses\<rparr>])]"
    by (simp add: eval_defs)
  have r: "retained_edges [ex_group, ex_tool, ex_uses] ''intrusion-set'' ''uses'' ''tool''
      = [ex_uses]"
    by (simp add: retained_edges_def typed_edge_def eval_defs)
  have "\<exists>r \<in> set (retained_edges [ex_group, ex_tool, ex_uses] ''intrusion-set'' ''uses'' ''tool'').
      anchor_of False r = ''intrusion-set--1''"
    unfolding r by (simp add: anchor_of_def ex_uses_def edge_def)
  then show ?thesis
    using h get_related_keys_are_anchors [OF h, of "''intrusion-set--1''"]
    unfolding r by simp
qed

text \<open>
  C2 as stated fails: the only related entity of the key is revoked, and the key is
  present with an empty list.
\<close>

theorem get_related_empty_value_present:
  "get_related [ex_group, ex_tool\<lparr>revoked := Some True\<rparr>, ex_uses]
      ''intrusion-set'' ''uses'' ''tool'' False
     = Inr [(''intrusion-set--1'', [])]"
  by (simp add: eval_defs)

text \<open>
  C5 (as amended).  When \<open>X\<close> is the identifier of a stored, non-revoked entity of type
  \<open>S\<close> and \<open>Y\<close> that of a stored, non-revoked entity of type \<open>T\<close>, \<open>X\<close> is a key of
  the returned forward mapping with \<open>Y\<close> in its value list if and only if \<open>Y\<close> is a key
  of the returned reverse mapping with \<open>X\<close> in its value list.
\<close>

theorem get_related_transpose:
  assumes "get_related src S R T False = Inr forward"
    and "get_related src S R T True = Inr backward"
    and "X \<in> stix_id ` set (live_entities src S)"
    and "Y \<in> stix_id ` set (live_entities src T)"
  shows "related_in forward X Y \<longleftrightarrow> related_in backward Y X"
proof -
  have f: "forward = related_mapping src S R T False"
    using assms(1) by (rule get_related_Inr)
  have b: "backward = related_mapping src S R T True"
    using assms(2) by (rule get_related_Inr)
  show ?thesis
    using assms(3,4) unfolding f b related_in_related_mapping
    by (auto simp: anchor_of_def related_of_def)
qed

theorem get_related_transpose_witness:
  "related_in [(''intrusion-set--1'', [\<lparr>object = ex_tool, relationship = ex_uses\<rparr>])]
      ''intrusion-set--1'' ''tool--2''
   \<and> related_in [(''tool--2'', [\<lparr>object = ex_group, relationship = ex_uses\<rparr>])]
      ''tool--2'' ''intrusion-set--1''
   \<and> get_related [ex_group, ex_tool, ex_uses] ''intrusion-set'' ''uses'' ''tool'' False
     = Inr [(''intrusion-set--1'', [\<lparr>object = ex_tool, relationship = ex_uses\<rparr>])]
   \<and> get_related [ex_group, ex_tool, ex_uses] ''intrusion-set'' ''uses'' ''tool'' True
     = Inr [(''tool--2'', [\<lparr>object = ex_group, relationship = ex_uses\<rparr>])]"
proof -
  have f: "get_related [ex_group, ex_tool, ex_uses] ''intrusion-set'' ''uses'' ''tool'' False
     = Inr [(''intrusion-set--1'', [\<lparr>object = ex_tool, relationship = ex_uses\<rparr>])]"
    by (simp add: eval_defs)
  have b: "get_related [ex_group, ex_tool, ex_uses] ''intrusion-set'' ''uses'' ''tool'' True
     = Inr [(''tool--2'', [\<lparr>object = ex_group, relationship = ex_uses\<rparr>])]"
    by (simp add: eval_defs)
  have x: "''intrusion-set--1'' \<in> stix_id ` set (live_entities [ex_group, ex_tool, ex_uses] ''intrusion-set'')"
    by (simp add: live_entities_def eval_defs)
  have y: "''tool--2'' \<in> stix_id ` set (live_entities [ex_group, ex_tool, ex_uses] ''tool'')"
    by (simp add: live_entities_def eval_defs)
  have l: "related_in [(''intrusion-set--1'', [\<lparr>object = ex_tool, relationship = ex_uses\<rparr>])]
      ''intrusion-set--1'' ''tool--2''"
    by (simp add: related_in_def eval_defs)
  show ?thesis
    using f b l get_related_transpose [OF f b x y] by simp
qed

text \<open>
  C5 as stated fails: the edge of a revoked source entity is in the forward mapping,
  and the reverse mapping drops that entity from the target's list.
\<close>

theorem get_related_not_transpose_revoked_source:
  "get_related [ex_group\<lparr>revoked := Some True\<rparr>, ex_tool, ex_uses]
      ''intrusion-set'' ''uses'' ''tool'' False
     = Inr [(''intrusion-set--1'', [\<lparr>object = ex_tool, relationship = ex_uses\<rparr>])]
   \<and> related_in [(''intrusion-set--1'', [\<lparr>object = ex_tool, relationship = ex_uses\<rparr>])]
       ''intrusion-set--1'' ''tool--2''
   \<and> get_related [ex_group\<lparr>revoked := Some True\<rparr>, ex_tool, ex_uses]
      ''intrusion-set'' ''uses'' ''tool'' True
     = Inr [(''tool--2'', [])]
   \<and> \<not> related_in [(''tool--2'', [])] ''tool--2'' ''intrusion-set--1''"
  by (simp add: related_in_def eval_defs)

text \<open>
  C9 (as amended).  \<^verbatim>\<open>get_related\<close> checks none of its arguments against the
  vocabulary.  The call fails, with the \<^verbatim>\<open>ValueError\<close> of the store's type filter
  reaching the caller, exactly when the related type (\<^verbatim>\<open>target_type\<close>, or
  \<^verbatim>\<open>source_type\<close> when reversed) holds an underscore.  For every other argument,
  in the vocabulary or not, it returns a mapping, which is empty exactly when no edge is
  retained, so whenever no stored object has the given relationship type.
\<close>

theorem get_related_no_validation:
  "(CHR ''_'' \<in> set (if rv then S else T) \<longrightarrow> get_related src S R T rv = Inl ValueError)
   \<and> (CHR ''_'' \<notin> set (if rv then S else T) \<longrightarrow>
        (\<exists>m. get_related src S R T rv = Inr m \<and> (m = [] \<longleftrightarrow> retained_edges src S R T = [])))
   \<and> (CHR ''_'' \<notin> set (if rv then S else T) \<and> (\<forall>r \<in> set src. relationship_type r \<noteq> R) \<longrightarrow>
        get_related src S R T rv = Inr [])"
proof (intro conjI impI)
  assume "CHR ''_'' \<in> set (if rv then S else T)"
  then show "get_related src S R T rv = Inl ValueError"
    by (simp add: get_related_eq)
next
  assume "CHR ''_'' \<notin> set (if rv then S else T)"
  then have "get_related src S R T rv = Inr (related_mapping src S R T rv)"
    by (simp add: get_related_eq)
  then show "\<exists>m. get_related src S R T rv = Inr m \<and> (m = [] \<longleftrightarrow> retained_edges src S R T = [])"
    using related_mapping_Nil_iff by blast
next
  assume a: "CHR ''_'' \<notin> set (if rv then S else T) \<and> (\<forall>r \<in> set src. relationship_type r \<noteq> R)"
  then have "retained_edges src S R T = []"
    by (auto simp: retained_edges_def matching_def remove_revoked_deprecated_def filter_empty_conv)
  then have "related_mapping src S R T rv = []"
    by (simp add: related_mapping_Nil_iff)
  then show "get_related src S R T rv = Inr []"
    using a by (simp add: get_related_eq)
qed

theorem get_related_no_validation_witness:
  "get_related [ex_group, ex_tool, ex_uses] ''intrusion-set'' ''uses'' ''x_unknown'' False
     = Inl ValueError
   \<and> get_related [ex_group, ex_tool, ex_uses] ''x_unknown'' ''uses'' ''tool'' True
     = Inl ValueError
   \<and> get_related [ex_group, ex_tool, ex_uses] ''intrusion-set'' ''unknown_relationship'' ''tool'' False
     = Inr []"
proof -
  have u: "CHR ''_'' \<in> set (if False then ''intrusion-set'' else ''x_unknown'')"
    by simp
  have u': "CHR ''_'' \<in> set (if True then ''x_unknown'' else ''tool'')"
    by simp
  have n: "CHR ''_'' \<notin> set (if False then ''intrusion-set'' else ''tool'')
      \<and> (\<forall>r \<in> set [ex_group, ex_tool, ex_uses]. relationship_type r \<noteq> ''unknown_relationship'')"
    by (simp add: eval_defs)
  show ?thesis
    using u u' n
      get_related_no_validation
        [of False "''intrusion-set''" "''x_unknown''" "[ex_group, ex_tool, ex_uses]" "''uses''"]
      get_related_no_validation
        [of True "''x_unknown''" "''tool''" "[ex_group, ex_tool, ex_uses]" "''uses''"]
      get_related_no_validation
        [of False "''intrusion-set''" "''tool''" "[ex_group, ex_tool, ex_uses]"
            "''unknown_relationship''"]
    by simp
qed

text \<open>
  C9 as stated fails: with a source type, a relationship type or a target type outside
  the vocabulary the call returns the empty mapping.
\<close>

theorem get_related_unknown_types_return_mapping:
  "get_related [ex_group, ex_tool, ex_uses] ''x-unknown'' ''uses'' ''tool'' False = Inr []
   \<and> get_related [ex_group, ex_tool, ex_uses] ''intrusion-set'' ''x-unknown'' ''tool'' False = Inr []
   \<and> get_related [ex_group, ex_tool, ex_uses] ''intrusion-set'' ''uses'' ''x-unknown'' False = Inr []
   \<and> get_related [] ''intrusion-set'' ''uses'' ''x-unknown'' True = Inr []"
  by (simp add: eval_defs)

section \<open>Lookups by value\<close>

lemma first_of_Nil [simp]: "first_of [] = Inl IndexError"
  by (simp add: first_of_def)

lemma first_of_Cons [simp]: "first_of (x # xs) = Inr x"
  by (simp add: first_of_def)

lemma matching_conv:
  "matching fs src = filter (\<lambda>obj. list_all (\<lambda>f. check_filter f obj) fs) src"
  by (simp add: matching_def)

lemma stix_types_no_underscore: "t \<in> set stix_types \<Longrightarrow> CHR ''_'' \<notin> set t"
  by (auto simp: stix_types_def)

text \<open>
  C8.  For a valid \<^verbatim>\<open>object_type\<close>: when exactly one object of that type has the
  name, \<^verbatim>\<open>get_object_by_name\<close> returns it, materialized; when no object of that type
  has the name, the call fails with \<^verbatim>\<open>IndexError\<close>.  The same failure on zero
  matches holds for \<^verbatim>\<open>get_object_by_attack_id\<close> (no object of the type carries the
  id) and for \<^verbatim>\<open>get_group_by_alias\<close>, \<^verbatim>\<open>get_campaign_by_alias\<close> and
  \<^verbatim>\<open>get_software_by_alias\<close> (no object of the type has an alias in which the given
  string occurs, which is how the store matches an alias).
\<close>

theorem lookups_first_or_index_error:
  assumes "object_type \<in> set stix_types"
  shows "(filter (\<lambda>obj. stix_type obj = object_type \<and> name obj = Some nm) src = [e]
            \<longrightarrow> get_object_by_name src nm object_type = Inr (StixObjectFactory e))
   \<and> ((\<forall>obj \<in> set src. stix_type obj = object_type \<longrightarrow> name obj \<noteq> Some nm)
            \<longrightarrow> get_object_by_name src nm object_type = Inl IndexError)
   \<and> ((\<forall>obj \<in> set src. stix_type obj = object_type \<longrightarrow> attack_id \<notin> set (external_ids obj))
            \<longrightarrow> get_object_by_attack_id src attack_id object_type = Inl IndexError)
   \<and> ((\<forall>obj \<in> set src. stix_type obj = ''intrusion-set''
              \<longrightarrow> \<not> list_ex (str_in alias) (aliases obj))
            \<longrightarrow> get_group_by_alias src alias = Inl IndexError)
   \<and> ((\<forall>obj \<in> set src. stix_type obj = ''campaign''
              \<longrightarrow> \<not> list_ex (str_in alias) (aliases obj))
            \<longrightarrow> get_campaign_by_alias src alias = Inl IndexError)
   \<and> ((\<forall>obj \<in> set src. stix_type obj = ''malware'' \<or> stix_type obj = ''tool''
              \<longrightarrow> \<not> list_ex (str_in alias) (x_mitre_aliases obj))
            \<longrightarrow> get_software_by_alias src alias = Inl IndexError)"
proof (intro conjI impI)
  note ok = stix_types_no_underscore [OF assms]
  {
    assume "filter (\<lambda>obj. stix_type obj = object_type \<and> name obj = Some nm) src = [e]"
    then show "get_object_by_name src nm object_type = Inr (StixObjectFactory e)"
      using assms ok by (simp add: get_object_by_name_def query_def matching_conv)
  next
    assume "\<forall>obj \<in> set src. stix_type obj = object_type \<longrightarrow> name obj \<noteq> Some nm"
    then have "filter (\<lambda>obj. stix_type obj = object_type \<and> name obj = Some nm) src = []"
      by (simp add: filter_empty_conv)
    then show "get_object_by_name src nm object_type = Inl IndexError"
      using assms ok by (simp add: get_object_by_name_def query_def matching_conv)
  next
    assume "\<forall>obj \<in> set src. stix_type obj = object_type \<longrightarrow> attack_id \<notin> set (external_ids obj)"
    then have "filter (\<lambda>obj. attack_id \<in> set (external_ids obj) \<and> stix_type obj = object_type) src = []"
      by (auto simp: filter_empty_conv)
    then show "get_object_by_attack_id src attack_id object_type = Inl IndexError"
      using assms ok by (simp add: get_object_by_attack_id_def query_def matching_conv)
  next
    assume "\<forall>obj \<in> set src. stix_type obj = ''intrusion-set''
              \<longrightarrow> \<not> list_ex (str_in alias) (aliases obj)"
    then have "filter (\<lambda>obj. stix_type obj = ''intrusion-set'' \<and>
        list_ex (str_in alias) (aliases obj)) src = []"
      by (simp add: filter_empty_conv)
    then show "get_group_by_alias src alias = Inl IndexError"
      by (simp add: get_group_by_alias_def query_def matching_conv)
  next
    assume "\<forall>obj \<in> set src. stix_type obj = ''campaign''
              \<longrightarrow> \<not> list_ex (str_in alias) (aliases obj)"
    then have "filter (\<lambda>obj. stix_type obj = ''campaign'' \<and>
        list_ex (str_in alias) (aliases obj)) src = []"
      by (simp add: filter_empty_conv)
    then show "get_campaign_by_alias src alias = Inl IndexError"
      by (simp add: get_campaign_by_alias_def query_def matching_conv)
  next
    assume a: "\<forall>obj \<in> set src. stix_type obj = ''malware'' \<or> stix_type obj = ''tool''
              \<longrightarrow> \<not> list_ex (str_in alias) (x_mitre_aliases obj)"
    have m: "filter (\<lambda>obj. stix_type obj = ''malware'' \<and>
        list_ex (str_in alias) (x_mitre_aliases obj)) src = []"
      using a by (simp add: filter_empty_conv)
    have t: "filter (\<lambda>obj. stix_type obj = ''tool'' \<and>
        list_ex (str_in alias) (x_mitre_aliases obj)) src = []"
      using a by (simp add: filter_empty_conv)
    show "get_software_by_alias src alias = Inl IndexError"
      by (simp add: get_software_by_alias_def query_def matching_conv m t)
  }
qed

theorem lookups_first_or_index_error_witness:
  "get_object_by_name [ex_group\<lparr>aliases := [''APT28'']\<rparr>, (ex_tool\<lparr>name := Some ''Mimikatz''\<rparr>), ex_uses]
      ''Mimikatz'' ''tool''
     = Inr (ex_tool\<lparr>name := Some ''Mimikatz''\<rparr>)
   \<and> get_object_by_name [ex_group\<lparr>aliases := [''APT28'']\<rparr>, (ex_tool\<lparr>name := Some ''Mimikatz''\<rparr>), ex_uses]
      ''Net'' ''tool''
     = Inl IndexError
   \<and> get_group_by_alias [ex_group\<lparr>aliases := [''APT28'']\<rparr>, (ex_tool\<lparr>name := Some ''Mimikatz''\<rparr>), ex_uses]
      ''Sandworm''
     = Inl IndexError
   \<and> get_group_by_alias [ex_group\<lparr>aliases := [''APT28'']\<rparr>, (ex_tool\<lparr>name := Some ''Mimikatz''\<rparr>), ex_uses]
      ''APT''
     = Inr (ex_group\<lparr>aliases := [''APT28'']\<rparr>)"
proof -
  let ?src = "[ex_group\<lparr>aliases := [''APT28'']\<rparr>, (ex_tool\<lparr>name := Some ''Mimikatz''\<rparr>), ex_uses]"
  have ty: "''tool'' \<in> set stix_types"
    by (simp add: stix_types_def)
  have one: "filter (\<lambda>obj. stix_type obj = ''tool'' \<and> name obj = Some ''Mimikatz'') ?src
      = [ex_tool\<lparr>name := Some ''Mimikatz''\<rparr>]"
    by (simp add: eval_defs)
  have zero: "\<forall>obj \<in> set ?src. stix_type obj = ''tool'' \<longrightarrow> name obj \<noteq> Some ''Net''"
    by (simp add: eval_defs)
  have noalias: "\<forall>obj \<in> set ?src. stix_type obj = ''intrusion-set''
      \<longrightarrow> \<not> list_ex (str_in ''Sandworm'') (aliases obj)"
    by (simp add: eval_defs)
  have a: "get_object_by_name ?src ''Mimikatz'' ''tool'' = Inr (ex_tool\<lparr>name := Some ''Mimikatz''\<rparr>)"
    using one lookups_first_or_index_error [OF ty, of "''Mimikatz''" ?src]
    by (simp add: StixObjectFactory_def)
  have b: "get_object_by_name ?src ''Net'' ''tool'' = Inl IndexError"
    using zero lookups_first_or_index_error [OF ty, of "''Net''" ?src] by blast
  have c: "get_group_by_alias ?src ''Sandworm'' = Inl IndexError"
    using noalias lookups_first_or_index_error [OF ty, of _ ?src _ _ "''Sandworm''"] by blast
  have d: "get_group_by_alias ?src ''APT'' = Inr (ex_group\<lparr>aliases := [''APT28'']\<rparr>)"
    by (simp add: get_group_by_alias_def eval_defs)
  show ?thesis
    using a b c d by simp
qed

lemma get_revoked_by_revokers:
  "get_revoked_by src sid = first_of (revokers src sid)"
proof -
  have rel: "relationships src sid ''revoked-by''
      = Inr (matching [Filter ''type'' ''='' (Str ''relationship''),
                       Filter ''relationship_type'' ''='' (Str ''revoked-by''),
                       Filter ''source_ref'' ''='' (Str sid)] src)"
    unfolding relationships_def by (rule query_accepted) simp
  have "\<And>ids. filter (\<lambda>obj. stix_id obj \<in> set (map target_ref
            (matching [Filter ''type'' ''='' (Str ''relationship''),
                       Filter ''relationship_type'' ''='' (Str ''revoked-by''),
                       Filter ''source_ref'' ''='' (Str sid)] src))
            \<and> revoked obj = Some False) src = revokers src sid"
    unfolding revokers_def matching_conv
    by (rule filter_cong) auto
  then show ?thesis
    unfolding get_revoked_by_def rel bind_result_Inr
    by (simp add: query_def matching_conv)
qed

text \<open>
  C10.  When the store holds no non-revoked object that revokes \<open>sid\<close>,
  \<^verbatim>\<open>get_revoked_by\<close> fails with \<^verbatim>\<open>IndexError\<close>; when it holds one, the first of
  them in store order is returned.
\<close>

theorem get_revoked_by_first_or_index_error:
  "(revokers src sid = [] \<longrightarrow> get_revoked_by src sid = Inl IndexError)
   \<and> (\<forall>obj rest. revokers src sid = obj # rest \<longrightarrow> get_revoked_by src sid = Inr obj)"
  by (simp add: get_revoked_by_revokers)

theorem get_revoked_by_first_or_index_error_witness:
  "get_revoked_by [ex_group, ex_tool, ex_uses] ''tool--2'' = Inl IndexError
   \<and> get_revoked_by
        [ex_group, ex_tool, edge ''relationship--10'' ''revoked-by'' ''tool--0'' ''tool--2'']
        ''tool--0'' = Inr ex_tool"
proof -
  have e: "revokers [ex_group, ex_tool, ex_uses] ''tool--2'' = []"
    by (simp add: revokers_def eval_defs)
  have f: "revokers [ex_group, ex_tool, edge ''relationship--10'' ''revoked-by'' ''tool--0'' ''tool--2'']
        ''tool--0'' = [ex_tool]"
    by (simp add: revokers_def eval_defs)
  show ?thesis
    using e f
      get_revoked_by_first_or_index_error [of "[ex_group, ex_tool, ex_uses]" "''tool--2''"]
      get_revoked_by_first_or_index_error
        [of "[ex_group, ex_tool, edge ''relationship--10'' ''revoked-by'' ''tool--0'' ''tool--2'']"
            "''tool--0''"]
    by simp
qed

section \<open>Composite queries\<close>

text \<open>
  C3 at a store with one mitigation mitigating one technique: the full mapping gives the
  technique its mitigation, \<^verbatim>\<open>get_mitigations_mitigating_technique_with_id\<close> returns
  \<^verbatim>\<open>None\<close>, and the sibling accessor of the other direction returns the value of its
  mapping.
\<close>

theorem mitigations_with_id_returns_none:
  "get_mitigations_mitigating_techniques [ex_technique, ex_mitigation, ex_mitigates]
     = Inr [(''attack-pattern--4'', [\<lparr>object = ex_mitigation, relationship = ex_mitigates\<rparr>])]
   \<and> get_mitigations_mitigating_technique_with_id [ex_technique, ex_mitigation, ex_mitigates]
      ''attack-pattern--4'' = None
   \<and> get_techniques_mitigated_by_mitigation_with_id [ex_technique, ex_mitigation, ex_mitigates]
      ''course-of-action--5''
     = Inr [\<lparr>object = ex_technique, relationship = ex_mitigates\<rparr>]"
  by (simp add: get_mitigations_mitigating_techniques_def
      get_mitigations_mitigating_technique_with_id_def
      get_techniques_mitigated_by_mitigation_with_id_def
      get_techniques_mitigated_by_mitigations_def eval_defs eval_more)

text \<open>
  C4 at a store with one technique used by a tool and by a malware: each reverse
  mapping has the technique as a key, and \<^verbatim>\<open>get_software_using_techniques\<close> gives the
  technique the malware's list only.
\<close>

theorem software_using_techniques_loses_tools:
  "get_related [ex_technique, ex_tool, ex_malware, ex_tool_uses, ex_malware_uses]
      ''tool'' ''uses'' ''attack-pattern'' True
     = Inr [(''attack-pattern--4'', [\<lparr>object = ex_tool, relationship = ex_tool_uses\<rparr>])]
   \<and> get_related [ex_technique, ex_tool, ex_malware, ex_tool_uses, ex_malware_uses]
      ''malware'' ''uses'' ''attack-pattern'' True
     = Inr [(''attack-pattern--4'', [\<lparr>object = ex_malware, relationship = ex_malware_uses\<rparr>])]
   \<and> get_software_using_techniques [ex_technique, ex_tool, ex_malware, ex_tool_uses, ex_malware_uses]
     = Inr [(''attack-pattern--4'', [\<lparr>object = ex_malware, relationship = ex_malware_uses\<rparr>])]"
  by (simp add: get_software_using_techniques_def eval_defs eval_more)

section \<open>Software used by groups\<close>

lemma str_in_set: "str_in s u \<Longrightarrow> set s \<subseteq> set u"
proof (induction u)
  case Nil
  then show ?case by simp
next
  case (Cons c cs)
  then show ?case
    using set_mono_prefix [of s "c # cs"] by auto
qed

lemma uuid_chars_set: "uuid_chars u \<longleftrightarrow> set u \<subseteq> set ''0123456789abcdefABCDEF-''"
  unfolding uuid_chars_def list_all_iff by blast

lemma not_str_in_uuid:
  assumes "uuid_chars u" and "c \<in> set s" and "c \<notin> set ''0123456789abcdefABCDEF-''"
  shows "\<not> str_in s u"
  using assms str_in_set [of s u] unfolding uuid_chars_set by blast

lemma type_not_in_uuid [simp]:
  assumes "uuid_chars u"
  shows "\<not> str_in ''intrusion-set'' u" and "\<not> str_in ''tool'' u"
    and "\<not> str_in ''malware'' u" and "\<not> str_in ''campaign'' u"
proof -
  show "\<not> str_in ''intrusion-set'' u"
    by (rule not_str_in_uuid [OF assms, of "CHR ''t''"]) simp_all
  show "\<not> str_in ''tool'' u"
    by (rule not_str_in_uuid [OF assms, of "CHR ''t''"]) simp_all
  show "\<not> str_in ''malware'' u"
    by (rule not_str_in_uuid [OF assms, of "CHR ''m''"]) simp_all
  show "\<not> str_in ''campaign'' u"
    by (rule not_str_in_uuid [OF assms, of "CHR ''m''"]) simp_all
qed

lemma add_related_untyped:
  "add_related S T rv d r = (if typed_edge S T r then add_related [] [] rv d r else d)"
  by (simp add: add_related_def typed_edge_def)

lemma foldl_add_related_filter:
  "foldl (add_related S T rv) d rs = foldl (add_related [] [] rv) d (filter (typed_edge S T) rs)"
proof (induction rs arbitrary: d)
  case Nil
  show ?case by simp
next
  case (Cons r rs)
  show ?case
    by (simp add: Cons.IH add_related_untyped [of S T rv d r])
qed

lemma related_mapping_from_lists:
  "related_mapping src S R T rv =
     map (\<lambda>(sid, rels). (sid, List.map_filter (resolve (target_index src S T rv)) rels))
       (foldl (add_related [] [] rv) [] (retained_edges src S R T))"
  unfolding related_mapping_def retained_edges_def
  by (simp only: foldl_add_related_filter [of S T rv])

lemma retained_edges_filter:
  "retained_edges src S R T =
     filter (\<lambda>r. stix_type r = ''relationship'' \<and> relationship_type r = R \<and>
                revoked r = Some False \<and> x_mitre_deprecated r \<noteq> Some True \<and>
                typed_edge S T r) src"
  unfolding retained_edges_def remove_revoked_deprecated_def matching_conv filter_filter
  by (rule filter_cong) (auto simp: get_flag_def split: option.splits)

lemma live_entities_filter:
  "live_entities src ty = filter (\<lambda>t. stix_type t = ty \<and> revoked t = Some False) src"
  by (simp add: live_entities_def matching_conv)

lemma filter_single:
  assumes "distinct xs" and "x \<in> set xs" and "P x" and "\<And>y. y \<in> set xs \<Longrightarrow> y \<noteq> x \<Longrightarrow> \<not> P y"
  shows "filter P xs = [x]"
  using assms
proof (induction xs)
  case Nil
  then show ?case by simp
next
  case (Cons a xs)
  show ?case
  proof (cases "a = x")
    case True
    then have "x \<notin> set xs" using Cons.prems(1) by simp
    then have "filter P xs = []"
      using Cons.prems(4) by (auto simp: filter_empty_conv)
    then show ?thesis using True Cons.prems(3) by simp
  next
    case False
    then have "\<not> P a" "x \<in> set xs"
      using Cons.prems by auto
    moreover have "filter P xs = [x]"
      using Cons.IH Cons.prems \<open>x \<in> set xs\<close> by auto
    ultimately show ?thesis by simp
  qed
qed

lemma filter_none:
  assumes "\<And>y. y \<in> set xs \<Longrightarrow> \<not> P y"
  shows "filter P xs = []"
  using assms by (simp add: filter_empty_conv)

lemma related_mapping_single:
  assumes "retained_edges src S R T = [e]"
    and "live_entities src (if rv then S else T) = [t]"
    and "stix_id t = related_of rv e"
  shows "related_mapping src S R T rv = [(anchor_of rv e, [\<lparr>object = t, relationship = e\<rparr>])]"
  unfolding related_mapping_from_lists target_index_def assms(1,2)
  using assms(3)
  by (simp add: add_related_def dict_has_def anchor_of_def related_of_def resolve_def
      StixObjectFactory_def)

text \<open>
  C6 (as amended).  A store that holds exactly a group \<open>G\<close>, a tool \<open>W\<close>, a campaign \<open>C\<close>, a
  malware \<open>M\<close> (none revoked, each identifier its type followed by \<^verbatim>\<open>--\<close> and a
  UUID) and three relationships that are neither revoked nor deprecated: \<open>G\<close> uses
  \<open>W\<close>, \<open>C\<close> attributed-to \<open>G\<close>, \<open>C\<close> uses \<open>M\<close>.  In whatever order the store
  lists them, \<^verbatim>\<open>get_software_used_by_groups\<close> maps \<open>G\<close> to exactly the entry of
  \<open>W\<close> followed by the entry of \<open>M\<close>, and \<open>G\<close> is its only key.
\<close>

theorem software_used_by_groups_direct_then_campaign:
  assumes G: "stix_type G = ''intrusion-set''" "stix_id G = ''intrusion-set--'' @ g"
             "uuid_chars g" "revoked G = Some False"
    and W: "stix_type W = ''tool''" "stix_id W = ''tool--'' @ w"
           "uuid_chars w" "revoked W = Some False"
    and C: "stix_type C = ''campaign''" "stix_id C = ''campaign--'' @ c"
           "uuid_chars c" "revoked C = Some False"
    and M: "stix_type M = ''malware''" "stix_id M = ''malware--'' @ m"
           "uuid_chars m" "revoked M = Some False"
    and e1: "stix_type e1 = ''relationship''" "relationship_type e1 = ''uses''"
            "source_ref e1 = stix_id G" "target_ref e1 = stix_id W"
            "revoked e1 = Some False" "x_mitre_deprecated e1 \<noteq> Some True"
    and e2: "stix_type e2 = ''relationship''" "relationship_type e2 = ''attributed-to''"
            "source_ref e2 = stix_id C" "target_ref e2 = stix_id G"
            "revoked e2 = Some False" "x_mitre_deprecated e2 \<noteq> Some True"
    and e3: "stix_type e3 = ''relationship''" "relationship_type e3 = ''uses''"
            "source_ref e3 = stix_id C" "target_ref e3 = stix_id M"
            "revoked e3 = Some False" "x_mitre_deprecated e3 \<noteq> Some True"
    and store: "distinct src" "set src = {G, W, C, M, e1, e2, e3}"
  shows "get_software_used_by_groups src =
           Inr [(stix_id G, [\<lparr>object = W, relationship = e1\<rparr>, \<lparr>object = M, relationship = e3\<rparr>])]
         \<and> get_software_used_by_group_with_id src (stix_id G) =
           Inr [\<lparr>object = W, relationship = e1\<rparr>, \<lparr>object = M, relationship = e3\<rparr>]"
proof -
  note facts = G W C M e1 e2 e3
  have mem: "G \<in> set src" "W \<in> set src" "C \<in> set src" "M \<in> set src"
    "e1 \<in> set src" "e2 \<in> set src" "e3 \<in> set src"
    using store(2) by simp_all
  have cases: "\<And>y. y \<in> set src \<Longrightarrow> y = G \<or> y = W \<or> y = C \<or> y = M \<or> y = e1 \<or> y = e2 \<or> y = e3"
    using store(2) by simp
  have liveW: "live_entities src ''tool'' = [W]"
    unfolding live_entities_filter
  proof (rule filter_single [OF store(1) mem(2)])
    show "stix_type W = ''tool'' \<and> revoked W = Some False" using facts by simp
  next
    fix y assume "y \<in> set src" "y \<noteq> W"
    with cases [of y] show "\<not> (stix_type y = ''tool'' \<and> revoked y = Some False)"
      using facts by auto
  qed
  have liveM: "live_entities src ''malware'' = [M]"
    unfolding live_entities_filter
  proof (rule filter_single [OF store(1) mem(4)])
    show "stix_type M = ''malware'' \<and> revoked M = Some False" using facts by simp
  next
    fix y assume "y \<in> set src" "y \<noteq> M"
    with cases [of y] show "\<not> (stix_type y = ''malware'' \<and> revoked y = Some False)"
      using facts by auto
  qed
  have liveC: "live_entities src ''campaign'' = [C]"
    unfolding live_entities_filter
  proof (rule filter_single [OF store(1) mem(3)])
    show "stix_type C = ''campaign'' \<and> revoked C = Some False" using facts by simp
  next
    fix y assume "y \<in> set src" "y \<noteq> C"
    with cases [of y] show "\<not> (stix_type y = ''campaign'' \<and> revoked y = Some False)"
      using facts by auto
  qed
  have r1: "retained_edges src ''intrusion-set'' ''uses'' ''tool'' = [e1]"
    unfolding retained_edges_filter
  proof (rule filter_single [OF store(1) mem(5)])
    show "stix_type e1 = ''relationship'' \<and> relationship_type e1 = ''uses'' \<and>
       revoked e1 = Some False \<and> x_mitre_deprecated e1 \<noteq> Some True \<and>
       typed_edge ''intrusion-set'' ''tool'' e1"
      using facts by (simp add: typed_edge_def)
  next
    fix y assume "y \<in> set src" "y \<noteq> e1"
    with cases [of y] show "\<not> (stix_type y = ''relationship'' \<and> relationship_type y = ''uses'' \<and>
       revoked y = Some False \<and> x_mitre_deprecated y \<noteq> Some True \<and>
       typed_edge ''intrusion-set'' ''tool'' y)"
      using facts by (auto simp: typed_edge_def)
  qed
  have r2: "retained_edges src ''intrusion-set'' ''uses'' ''malware'' = []"
    unfolding retained_edges_filter
  proof (rule filter_none)
    fix y assume "y \<in> set src"
    with cases [of y] show "\<not> (stix_type y = ''relationship'' \<and> relationship_type y = ''uses'' \<and>
       revoked y = Some False \<and> x_mitre_deprecated y \<noteq> Some True \<and>
       typed_edge ''intrusion-set'' ''malware'' y)"
      using facts by (auto simp: typed_edge_def)
  qed
  have r3: "retained_edges src ''campaign'' ''uses'' ''tool'' = []"
    unfolding retained_edges_filter
  proof (rule filter_none)
    fix y assume "y \<in> set src"
    with cases [of y] show "\<not> (stix_type y = ''relationship'' \<and> relationship_type y = ''uses'' \<and>
       revoked y = Some False \<and> x_mitre_deprecated y \<noteq> Some True \<and>
       typed_edge ''campaign'' ''tool'' y)"
      using facts by (auto simp: typed_edge_def)
  qed
  have r4: "retained_edges src ''campaign'' ''uses'' ''malware'' = [e3]"
    unfolding retained_edges_filter
  proof (rule filter_single [OF store(1) mem(7)])
    show "stix_type e3 = ''relationship'' \<and> relationship_type e3 = ''uses'' \<and>
       revoked e3 = Some False \<and> x_mitre_deprecated e3 \<noteq> Some True \<and>
       typed_edge ''campaign'' ''malware'' e3"
      using facts by (simp add: typed_edge_def)
  next
    fix y assume "y \<in> set src" "y \<noteq> e3"
    with cases [of y] show "\<not> (stix_type y = ''relationship'' \<and> relationship_type y = ''uses'' \<and>
       revoked y = Some False \<and> x_mitre_deprecated y \<noteq> Some True \<and>
       typed_edge ''campaign'' ''malware'' y)"
      using facts by (auto simp: typed_edge_def)
  qed
  have r5: "retained_edges src ''campaign'' ''attributed-to'' ''intrusion-set'' = [e2]"
    unfolding retained_edges_filter
  proof (rule filter_single [OF store(1) mem(6)])
    show "stix_type e2 = ''relationship'' \<and> relationship_type e2 = ''attributed-to'' \<and>
       revoked e2 = Some False \<and> x_mitre_deprecated e2 \<noteq> Some True \<and>
       typed_edge ''campaign'' ''intrusion-set'' e2"
      using facts by (simp add: typed_edge_def)
  next
    fix y assume "y \<in> set src" "y \<noteq> e2"
    with cases [of y] show "\<not> (stix_type y = ''relationship'' \<and>
       relationship_type y = ''attributed-to'' \<and>
       revoked y = Some False \<and> x_mitre_deprecated y \<noteq> Some True \<and>
       typed_edge ''campaign'' ''intrusion-set'' y)"
      using facts by (auto simp: typed_edge_def)
  qed
  have tools_g: "get_related src ''intrusion-set'' ''uses'' ''tool'' False
      = Inr [(stix_id G, [\<lparr>object = W, relationship = e1\<rparr>])]"
    using related_mapping_single [OF r1, of False W] liveW e1
    by (simp add: get_related_eq anchor_of_def related_of_def)
  have malware_g: "get_related src ''intrusion-set'' ''uses'' ''malware'' False = Inr []"
    using r2 by (simp add: get_related_eq related_mapping_Nil_iff)
  have tools_c: "get_related src ''campaign'' ''uses'' ''tool'' False = Inr []"
    using r3 by (simp add: get_related_eq related_mapping_Nil_iff)
  have malware_c: "get_related src ''campaign'' ''uses'' ''malware'' False
      = Inr [(stix_id C, [\<lparr>object = M, relationship = e3\<rparr>])]"
    using related_mapping_single [OF r4, of False M] liveM e3
    by (simp add: get_related_eq anchor_of_def related_of_def)
  have camp: "get_related src ''campaign'' ''attributed-to'' ''intrusion-set'' True
      = Inr [(stix_id G, [\<lparr>object = C, relationship = e2\<rparr>])]"
    using related_mapping_single [OF r5, of True C] liveC e2
    by (simp add: get_related_eq anchor_of_def related_of_def)
  have all: "get_software_used_by_groups src =
       Inr [(stix_id G, [\<lparr>object = W, relationship = e1\<rparr>, \<lparr>object = M, relationship = e3\<rparr>])]"
    unfolding get_software_used_by_groups_def tools_g malware_g tools_c malware_c camp
    by (simp add: merge_def dict_has_def dict_extend_def)
  show ?thesis
    unfolding get_software_used_by_group_with_id_def all
    by (simp add: get_or_empty_def)
qed

theorem software_used_by_groups_direct_then_campaign_witness:
  "get_software_used_by_group_with_id
     [entity ''intrusion-set'' ''intrusion-set--a1'', entity ''tool'' ''tool--b2'',
      entity ''campaign'' ''campaign--c3'', entity ''malware'' ''malware--d4'',
      edge ''relationship--e5'' ''uses'' ''intrusion-set--a1'' ''tool--b2'',
      edge ''relationship--e6'' ''attributed-to'' ''campaign--c3'' ''intrusion-set--a1'',
      edge ''relationship--e7'' ''uses'' ''campaign--c3'' ''malware--d4'']
     ''intrusion-set--a1''
   = Inr [\<lparr>object = entity ''tool'' ''tool--b2'',
       relationship = edge ''relationship--e5'' ''uses'' ''intrusion-set--a1'' ''tool--b2''\<rparr>,
      \<lparr>object = entity ''malware'' ''malware--d4'',
       relationship = edge ''relationship--e7'' ''uses'' ''campaign--c3'' ''malware--d4''\<rparr>]"
proof -
  let ?G = "entity ''intrusion-set'' ''intrusion-set--a1''"
  let ?W = "entity ''tool'' ''tool--b2''"
  let ?C = "entity ''campaign'' ''campaign--c3''"
  let ?M = "entity ''malware'' ''malware--d4''"
  let ?e1 = "edge ''relationship--e5'' ''uses'' ''intrusion-set--a1'' ''tool--b2''"
  let ?e2 = "edge ''relationship--e6'' ''attributed-to'' ''campaign--c3'' ''intrusion-set--a1''"
  let ?e3 = "edge ''relationship--e7'' ''uses'' ''campaign--c3'' ''malware--d4''"
  have "get_software_used_by_groups [?G, ?W, ?C, ?M, ?e1, ?e2, ?e3] =
           Inr [(stix_id ?G, [\<lparr>object = ?W, relationship = ?e1\<rparr>, \<lparr>object = ?M, relationship = ?e3\<rparr>])]
         \<and> get_software_used_by_group_with_id [?G, ?W, ?C, ?M, ?e1, ?e2, ?e3] (stix_id ?G) =
           Inr [\<lparr>object = ?W, relationship = ?e1\<rparr>, \<lparr>object = ?M, relationship = ?e3\<rparr>]"
    by (rule software_used_by_groups_direct_then_campaign
          [where g = "''a1''" and w = "''b2''" and c = "''c3''" and m = "''d4''"])
       (simp_all add: entity_def edge_def uuid_chars_def)
  then show ?thesis
    by (simp add: entity_def)
qed

text \<open>
  C6 as stated fails: the edge from the group to the tool is not revoked but
  deprecated, \<^verbatim>\<open>get_related\<close> drops it, and the group is left with the malware alone.
\<close>

theorem software_used_by_groups_drops_deprecated_edge:
  "get_software_used_by_groups
     [entity ''intrusion-set'' ''intrusion-set--a1'', entity ''tool'' ''tool--b2'',
      entity ''campaign'' ''campaign--c3'', entity ''malware'' ''malware--d4'',
      (edge ''relationship--e5'' ''uses'' ''intrusion-set--a1'' ''tool--b2'')
        \<lparr>x_mitre_deprecated := Some True\<rparr>,
      edge ''relationship--e6'' ''attributed-to'' ''campaign--c3'' ''intrusion-set--a1'',
      edge ''relationship--e7'' ''uses'' ''campaign--c3'' ''malware--d4'']
   = Inr [(''intrusion-set--a1'',
       [\<lparr>object = entity ''malware'' ''malware--d4'',
         relationship = edge ''relationship--e7'' ''uses'' ''campaign--c3'' ''malware--d4''\<rparr>])]
   \<and> revoked ((edge ''relationship--e5'' ''uses'' ''intrusion-set--a1'' ''tool--b2'')
        \<lparr>x_mitre_deprecated := Some True\<rparr>) = Some False"
  by (simp add: get_software_used_by_groups_def merge_def eval_defs)

end
